theory Spec2Isabelle
  imports Complex_Main "HOL-Library.Multiset"
begin

section \<open>Sales bonus report: a model of \<^verbatim>\<open>src/main.js\<close>\<close>

text \<open>
  The model is of \<^verbatim>\<open>src/main.js\<close> and its three functions,
  \<^verbatim>\<open>calculateSimpleRevenue\<close>, \<^verbatim>\<open>calculateBonusByProfit\<close> and \<^verbatim>\<open>analyzeSalesData\<close>. The
  repository holds other drafts of the same functions, which differ in details (rounding
  inside the policies, a test of \<^verbatim>\<open>total <= 1\<close>, no check of \<^verbatim>\<open>customers\<close>); line numbers
  below are those of \<^verbatim>\<open>src/main.js\<close>.

  Modelling decisions.
  \<^item> A JavaScript number is a rational (\<^typ>\<open>rat\<close>): arithmetic is exact, there is no
    NaN and no infinity, and the literals \<^verbatim>\<open>0.15\<close>, \<^verbatim>\<open>0.10\<close>, \<^verbatim>\<open>0.05\<close> are the fractions
    they denote. Binary floating-point rounding of the source is not modelled.
  \<^item> Identifiers and SKUs are strings. A plain object used as a dictionary
    (\<^verbatim>\<open>sellerIndex\<close>, \<^verbatim>\<open>productIndex\<close>) is a map; keys that name members inherited from
    \<^verbatim>\<open>Object.prototype\<close> are not modelled.
  \<^item> \<^verbatim>\<open>products_sold\<close> is enumerated by \<^verbatim>\<open>Object.entries\<close>, so its key order matters.
    It is an association list in insertion order, and \<open>entries\<close> applies the
    own-property order of the language: keys that are array indices first, in ascending
    numeric order, then the other keys in insertion order.
  \<^item> \<^verbatim>\<open>sellerStats\<close> is an array of objects that \<^verbatim>\<open>sellerIndex\<close> aliases. The array is the
    store (a list), and \<^verbatim>\<open>sellerIndex\<close> maps an identifier to a position in it.
  \<^item> A thrown \<^verbatim>\<open>Error\<close> is the left summand of the result.
  \<^item> Elements of the input arrays are typed records: fields that the code never reads
    are left out.
\<close>

subsection \<open>Data\<close>

type_synonym num = rat

record seller =
  s_id :: string
  s_first_name :: string
  s_last_name :: string

record product =
  p_sku :: string
  p_purchase_price :: num

record item =
  i_sku :: string
  i_quantity :: num
  i_sale_price :: num
  i_discount :: num

record purchase_record =
  r_seller_id :: string
  r_items :: "item list"

record customer =
  c_id :: string

text \<open>The accumulator objects of \<^verbatim>\<open>sellerStats\<close> (lines 72-79).\<close>

record seller_stat =
  st_id :: string
  st_name :: string
  st_revenue :: num
  st_profit :: num
  st_sales_count :: nat
  st_products_sold :: "(string \<times> num) list"

record top_product =
  tp_sku :: string
  tp_quantity :: num

text \<open>An accumulator after step 3: \<^verbatim>\<open>bonus\<close> and \<^verbatim>\<open>top_products\<close> have been set on it.\<close>

record ranked_seller =
  rs_stat :: seller_stat
  rs_bonus :: num
  rs_top_products :: "top_product list"

text \<open>The objects returned by step 4 (lines 145-153).\<close>

record report =
  seller_id :: string
  name :: string
  revenue :: num
  profit :: num
  sales_count :: nat
  top_products :: "top_product list"
  bonus :: num

text \<open>
  What a property read such as \<^verbatim>\<open>data.sellers\<close> can give: nothing (or any value that is
  not an array), or an array.
\<close>

datatype 'a js_field = Missing | NotArray | JSArray "'a list"

record data =
  sellers :: "seller js_field"
  products :: "product js_field"
  purchase_records :: "purchase_record js_field"
  customers :: "customer js_field"

text \<open>
  The first argument: a falsy value (\<^verbatim>\<open>undefined\<close>, \<^verbatim>\<open>null\<close>, \<^verbatim>\<open>0\<close>, ...), a truthy
  primitive (every property read on it gives \<^verbatim>\<open>undefined\<close>), or an object. A function
  that carries the four properties is not modelled.
\<close>

datatype data_arg = DataFalsy | DataPrimitive | DataObject data

text \<open>
  A property of the options object: a falsy value (also when the property is absent), a
  truthy value that is not a function, or a function.
\<close>

datatype 'f js_slot = Falsy | NonFunction | Function 'f

type_synonym revenue_fn = "item \<Rightarrow> product option \<Rightarrow> num"
type_synonym bonus_fn = "int \<Rightarrow> int \<Rightarrow> seller_stat \<Rightarrow> num"

record options =
  calculateRevenue :: "revenue_fn js_slot"
  calculateBonus :: "bonus_fn js_slot"

text \<open>
  The second argument: falsy, truthy with \<^verbatim>\<open>typeof options !== 'object'\<close>, or an object.
\<close>

datatype options_arg = OptionsFalsy | OptionsNonObject | OptionsObject options

text \<open>
  The four \<^verbatim>\<open>throw new Error(...)\<close> of lines 53, 58, 64 and 68. The messages are Russian
  text; in English: "invalid input data: data must contain non-empty arrays sellers,
  products, purchase_records and customers", "options must be an object", "options must
  contain the functions calculateRevenue and calculateBonus", "calculateRevenue and
  calculateBonus must be functions".
\<close>

datatype error =
  InvalidInputData
  | OptionsNotObject
  | OptionsMissingFunctions
  | OptionsNotFunctions

subsection \<open>The two default policies\<close>

text \<open>Lines 8-12.\<close>

definition calculateSimpleRevenue :: revenue_fn where
  "calculateSimpleRevenue purchase product =
     (let discountCoefficient = 1 - (i_discount purchase / 100);
          revenue = i_sale_price purchase * i_quantity purchase * discountCoefficient
      in revenue)"

text \<open>Lines 22-33. The branches are tried in the order of the source.\<close>

definition calculateBonusByProfit :: bonus_fn where
  "calculateBonusByProfit index total' seller =
     (let profit = st_profit seller in
      if index = 0 then profit * (15 / 100)
      else if index = 1 \<or> index = 2 then profit * (10 / 100)
      else if index = total' - 1 then 0
      else profit * (5 / 100))"

subsection \<open>Library functions of the language\<close>

text \<open>
  \<^verbatim>\<open>+x.toFixed(2)\<close>: for \<open>\<bar>x\<bar> < 10\<^sup>2\<^sup>1\<close> the digits are those of the integer \<open>n\<close> with
  \<open>n / 100\<close> closest to \<open>\<bar>x\<bar>\<close>, the larger one on a tie, and the sign is put back;
  from \<open>10\<^sup>2\<^sup>1\<close> on \<^verbatim>\<open>toFixed\<close> prints the number itself.
\<close>

definition toFixed2 :: "num \<Rightarrow> num" where
  "toFixed2 x =
     (if 10 ^ 21 \<le> \<bar>x\<bar> then x
      else sgn x * (of_int \<lfloor>\<bar>x\<bar> * 100 + 1 / 2\<rfloor> / 100))"

text \<open>
  \<^verbatim>\<open>xs.sort((a, b) => key(b) - key(a))\<close>: the sort is stable, and \<open>a\<close> comes before \<open>b\<close>
  when \<open>key b - key a < 0\<close>.
\<close>

definition sort_desc :: "('a \<Rightarrow> num) \<Rightarrow> 'a list \<Rightarrow> 'a list" where
  "sort_desc key xs = sort_key (\<lambda>x. - key x) xs"

text \<open>Reading and writing a property of a plain object whose keys are kept in insertion order.\<close>

definition obj_get :: "(string \<times> 'v) list \<Rightarrow> string \<Rightarrow> 'v option" where
  "obj_get obj k = map_of obj k"

fun obj_set :: "string \<Rightarrow> 'v \<Rightarrow> (string \<times> 'v) list \<Rightarrow> (string \<times> 'v) list" where
  "obj_set k v [] = [(k, v)]"
| "obj_set k v (p # ps) = (if fst p = k then (k, v) # ps else p # obj_set k v ps)"

text \<open>
  A property key is an array index when it is the canonical decimal text of an integer
  from 0 to \<open>2\<^sup>3\<^sup>2 - 2\<close>.
\<close>

definition is_digit :: "char \<Rightarrow> bool" where
  "is_digit c = (48 \<le> (of_char c :: int) \<and> (of_char c :: int) \<le> 57)"

definition dec_val :: "string \<Rightarrow> int" where
  "dec_val s = fold (\<lambda>c n. 10 * n + (of_char c - 48)) s 0"

definition is_array_index :: "string \<Rightarrow> bool" where
  "is_array_index s =
     (s \<noteq> [] \<and> list_all is_digit s \<and> (s = ''0'' \<or> hd s \<noteq> CHR ''0'')
      \<and> dec_val s < 2 ^ 32 - 1)"

text \<open>\<^verbatim>\<open>Object.entries(obj)\<close>.\<close>

definition entries :: "(string \<times> 'v) list \<Rightarrow> (string \<times> 'v) list" where
  "entries obj =
     sort_key (\<lambda>e. dec_val (fst e)) (filter (\<lambda>e. is_array_index (fst e)) obj)
     @ filter (\<lambda>e. \<not> is_array_index (fst e)) obj"

subsection \<open>\<^verbatim>\<open>analyzeSalesData\<close>\<close>

text \<open>Lines 72-79: one accumulator per seller.\<close>

definition init_stat :: "seller \<Rightarrow> seller_stat" where
  "init_stat s =
     \<lparr>st_id = s_id s, st_name = s_first_name s @ '' '' @ s_last_name s,
      st_revenue = 0, st_profit = 0, st_sales_count = 0, st_products_sold = []\<rparr>"

text \<open>
  Lines 82-85: \<^verbatim>\<open>result[seller.id] = seller\<close> for each accumulator in turn. The value
  stored is the position of the accumulator in \<^verbatim>\<open>sellerStats\<close>.
\<close>

definition build_seller_index :: "seller_stat list \<Rightarrow> (string \<rightharpoonup> nat)" where
  "build_seller_index sellerStats =
     fold (\<lambda>(j, s) result. result(st_id s \<mapsto> j)) (enumerate 0 sellerStats) Map.empty"

text \<open>Lines 87-90.\<close>

definition build_product_index :: "product list \<Rightarrow> (string \<rightharpoonup> product)" where
  "build_product_index ps = fold (\<lambda>p result. result(p_sku p \<mapsto> p)) ps Map.empty"

text \<open>
  Lines 120-123: a falsy counter (absent, or zero) is set to zero, then the quantity is
  added to it.
\<close>

definition bump_sold :: "string \<Rightarrow> num \<Rightarrow> (string \<times> num) list \<Rightarrow> (string \<times> num) list" where
  "bump_sold sku qty sold =
     (let sold1 = (case obj_get sold sku of
                     None \<Rightarrow> obj_set sku 0 sold
                   | Some q \<Rightarrow> if q = 0 then obj_set sku 0 sold else sold)
      in obj_set sku ((case obj_get sold1 sku of None \<Rightarrow> 0 | Some q \<Rightarrow> q) + qty) sold1)"

text \<open>Lines 105-124: the body of the inner loop, on the accumulator of the record's seller.\<close>

definition process_item ::
  "revenue_fn \<Rightarrow> (string \<rightharpoonup> product) \<Rightarrow> item \<Rightarrow> seller_stat \<Rightarrow> seller_stat" where
  "process_item calcRevenue productIndex it seller =
     (let product = productIndex (i_sku it);
          cost = (case product of
                    Some p \<Rightarrow> p_purchase_price p * i_quantity it
                  | None \<Rightarrow> 0);
          revenue = calcRevenue it product;
          profit = revenue - cost
      in seller\<lparr>st_revenue := st_revenue seller + revenue,
                st_profit := st_profit seller + profit,
                st_products_sold := bump_sold (i_sku it) (i_quantity it) (st_products_sold seller)\<rparr>)"

text \<open>
  Lines 93-125: the body of the outer loop. The accumulator is updated in place in the
  store; a record of an unknown seller leaves the store as it is.
\<close>

definition process_record ::
  "revenue_fn \<Rightarrow> (string \<rightharpoonup> nat) \<Rightarrow> (string \<rightharpoonup> product) \<Rightarrow> purchase_record
     \<Rightarrow> seller_stat list \<Rightarrow> seller_stat list" where
  "process_record calcRevenue sellerIndex productIndex record sellerStats =
     (case sellerIndex (r_seller_id record) of
        None \<Rightarrow> sellerStats
      | Some j \<Rightarrow>
          (let seller = (sellerStats ! j)\<lparr>st_sales_count := st_sales_count (sellerStats ! j) + 1\<rparr>
           in sellerStats[j := fold (process_item calcRevenue productIndex) (r_items record) seller]))"

text \<open>Lines 72-125.\<close>

definition accumulate ::
  "revenue_fn \<Rightarrow> seller list \<Rightarrow> product list \<Rightarrow> purchase_record list \<Rightarrow> seller_stat list" where
  "accumulate calcRevenue ss ps rs =
     (let sellerStats = map init_stat ss;
          sellerIndex = build_seller_index sellerStats;
          productIndex = build_product_index ps
      in fold (process_record calcRevenue sellerIndex productIndex) rs sellerStats)"

text \<open>Lines 138-141.\<close>

definition top_products_of :: "(string \<times> num) list \<Rightarrow> top_product list" where
  "top_products_of sold =
     take 10 (sort_desc tp_quantity
       (map (\<lambda>(sku, quantity). \<lparr>tp_sku = sku, tp_quantity = quantity\<rparr>) (entries sold)))"

text \<open>Lines 131-142: the bonus calculator sees the accumulator as the fold left it.\<close>

definition assign_bonuses :: "bonus_fn \<Rightarrow> seller_stat list \<Rightarrow> ranked_seller list" where
  "assign_bonuses calcBonus sellerStats =
     (let totalSellers = int (length sellerStats)
      in map (\<lambda>(index, seller).
                \<lparr>rs_stat = seller,
                 rs_bonus = calcBonus (int index) totalSellers seller,
                 rs_top_products = top_products_of (st_products_sold seller)\<rparr>)
             (enumerate 0 sellerStats))"

text \<open>Lines 145-153.\<close>

definition project :: "ranked_seller \<Rightarrow> report" where
  "project seller =
     \<lparr>seller_id = st_id (rs_stat seller),
      name = st_name (rs_stat seller),
      revenue = toFixed2 (st_revenue (rs_stat seller)),
      profit = toFixed2 (st_profit (rs_stat seller)),
      sales_count = st_sales_count (rs_stat seller),
      top_products = rs_top_products seller,
      bonus = toFixed2 (rs_bonus seller)\<rparr>"

text \<open>Lines 72-153: what runs once the checks have passed.\<close>

definition pipeline ::
  "revenue_fn \<Rightarrow> bonus_fn \<Rightarrow> seller list \<Rightarrow> product list \<Rightarrow> purchase_record list
     \<Rightarrow> report list" where
  "pipeline calcRevenue calcBonus ss ps rs =
     map project
       (assign_bonuses calcBonus (sort_desc st_profit (accumulate calcRevenue ss ps rs)))"

fun isArray :: "'a js_field \<Rightarrow> bool" where
  "isArray (JSArray _) = True"
| "isArray _ = False"

fun elements :: "'a js_field \<Rightarrow> 'a list" where
  "elements (JSArray xs) = xs"
| "elements _ = []"

text \<open>Lines 44-54.\<close>

definition data_invalid :: "data_arg \<Rightarrow> bool" where
  "data_invalid dat =
     (case dat of
        DataFalsy \<Rightarrow> True
      | DataPrimitive \<Rightarrow> True
      | DataObject d \<Rightarrow>
          \<not> isArray (sellers d)
          \<or> \<not> isArray (products d)
          \<or> \<not> isArray (purchase_records d)
          \<or> \<not> isArray (customers d)
          \<or> length (elements (sellers d)) = 0
          \<or> length (elements (products d)) = 0
          \<or> length (elements (purchase_records d)) = 0)"

text \<open>Lines 42-154.\<close>

definition analyzeSalesData :: "data_arg \<Rightarrow> options_arg \<Rightarrow> error + report list" where
  "analyzeSalesData dat opts =
     (if data_invalid dat then Inl InvalidInputData
      else case opts of
        OptionsFalsy \<Rightarrow> Inl OptionsNotObject
      | OptionsNonObject \<Rightarrow> Inl OptionsNotObject
      | OptionsObject opt \<Rightarrow>
          (case (calculateRevenue opt, calculateBonus opt) of
             (Falsy, _) \<Rightarrow> Inl OptionsMissingFunctions
           | (_, Falsy) \<Rightarrow> Inl OptionsMissingFunctions
           | (NonFunction, _) \<Rightarrow> Inl OptionsNotFunctions
           | (_, NonFunction) \<Rightarrow> Inl OptionsNotFunctions
           | (Function calcRevenue, Function calcBonus) \<Rightarrow>
               (case dat of
                  DataObject d \<Rightarrow>
                    Inr (pipeline calcRevenue calcBonus (elements (sellers d))
                           (elements (products d)) (elements (purchase_records d)))
                | _ \<Rightarrow> Inl InvalidInputData)))"

subsection \<open>Notions used to state the properties\<close>

text \<open>
  The receipts attributed to the seller at position \<open>j\<close> of the input: those that name
  its identifier, unless a later seller has the same identifier.
\<close>

definition attributed :: "seller list \<Rightarrow> purchase_record list \<Rightarrow> nat \<Rightarrow> purchase_record list" where
  "attributed ss rs j =
     (if s_id (ss ! j) \<in> s_id ` set (drop (Suc j) ss) then []
      else filter (\<lambda>r. r_seller_id r = s_id (ss ! j)) rs)"

definition attributed_items :: "seller list \<Rightarrow> purchase_record list \<Rightarrow> nat \<Rightarrow> item list" where
  "attributed_items ss rs j = concat (map r_items (attributed ss rs j))"

text \<open>The product card of a SKU: the last one in the input with that SKU, if any.\<close>

definition find_product :: "product list \<Rightarrow> string \<Rightarrow> product option" where
  "find_product ps sku = find (\<lambda>p. p_sku p = sku) (rev ps)"

definition item_revenue :: "revenue_fn \<Rightarrow> product list \<Rightarrow> item \<Rightarrow> num" where
  "item_revenue calcRevenue ps it = calcRevenue it (find_product ps (i_sku it))"

definition item_cost :: "product list \<Rightarrow> item \<Rightarrow> num" where
  "item_cost ps it =
     (case find_product ps (i_sku it) of
        None \<Rightarrow> 0
      | Some p \<Rightarrow> p_purchase_price p * i_quantity it)"




text \<open>
  The input positions of the sellers in rank order: the seller at rank \<open>i\<close> of the report
  is the one at position \<open>rank_order \<dots> ! i\<close> of the input.
\<close>

definition rank_order ::
  "revenue_fn \<Rightarrow> seller list \<Rightarrow> product list \<Rightarrow> purchase_record list \<Rightarrow> nat list" where
  "rank_order cr ss ps rs =
     map fst (sort_desc (\<lambda>p. st_profit (snd p)) (enumerate 0 (accumulate cr ss ps rs)))"


subsection \<open>Sample inputs\<close>

definition ex_seller1 :: seller where
  "ex_seller1 = \<lparr>s_id = ''seller_1'', s_first_name = ''Ann'', s_last_name = ''Lee''\<rparr>"

definition ex_seller2 :: seller where
  "ex_seller2 = \<lparr>s_id = ''seller_2'', s_first_name = ''Bob'', s_last_name = ''Ray''\<rparr>"

definition ex_product1 :: product where
  "ex_product1 = \<lparr>p_sku = ''SKU_001'', p_purchase_price = 40\<rparr>"

definition ex_product2 :: product where
  "ex_product2 = \<lparr>p_sku = ''SKU_002'', p_purchase_price = 10\<rparr>"

definition ex_item1 :: item where
  "ex_item1 = \<lparr>i_sku = ''SKU_001'', i_quantity = 2, i_sale_price = 100, i_discount = 10\<rparr>"

definition ex_item2 :: item where
  "ex_item2 = \<lparr>i_sku = ''SKU_002'', i_quantity = 5, i_sale_price = 20, i_discount = 0\<rparr>"

definition ex_record1 :: purchase_record where
  "ex_record1 = \<lparr>r_seller_id = ''seller_1'', r_items = [ex_item1]\<rparr>"

definition ex_record2 :: purchase_record where
  "ex_record2 = \<lparr>r_seller_id = ''seller_2'', r_items = [ex_item2]\<rparr>"

definition ex_options :: options_arg where
  "ex_options =
     OptionsObject \<lparr>calculateRevenue = Function calculateSimpleRevenue,
                    calculateBonus = Function calculateBonusByProfit\<rparr>"

text \<open>Two sellers, one receipt each, and an empty \<^verbatim>\<open>customers\<close> array.\<close>

definition ex_data :: data_arg where
  "ex_data =
     DataObject \<lparr>sellers = JSArray [ex_seller1, ex_seller2],
                 products = JSArray [ex_product1, ex_product2],
                 purchase_records = JSArray [ex_record1, ex_record2],
                 customers = JSArray []\<rparr>"

text \<open>The same bundle without the \<^verbatim>\<open>customers\<close> property.\<close>

definition ex_data_no_customers :: data_arg where
  "ex_data_no_customers =
     DataObject \<lparr>sellers = JSArray [ex_seller1, ex_seller2],
                 products = JSArray [ex_product1, ex_product2],
                 purchase_records = JSArray [ex_record1, ex_record2],
                 customers = Missing\<rparr>"

text \<open>Four accumulators in rank order.\<close>

definition ex_stat :: "string \<Rightarrow> num \<Rightarrow> seller_stat" where
  "ex_stat sid p =
     \<lparr>st_id = sid, st_name = sid, st_revenue = p, st_profit = p, st_sales_count = 1,
      st_products_sold = []\<rparr>"

definition ex_ranked :: "seller_stat list" where
  "ex_ranked = [ex_stat ''a'' 400, ex_stat ''b'' 300, ex_stat ''c'' 200, ex_stat ''d'' 100]"





definition ex_item_small :: item where
  "ex_item_small =
     \<lparr>i_sku = ''SKU_404'', i_quantity = 1, i_sale_price = 17 / 500, i_discount = 0\<rparr>"

definition ex_record_small :: purchase_record where
  "ex_record_small = \<lparr>r_seller_id = ''seller_1'', r_items = [ex_item_small]\<rparr>"



section \<open>Properties of the model\<close>

subsection \<open>Validation\<close>

lemma data_invalid_iff:
  "data_invalid dat \<longleftrightarrow>
     \<not> (\<exists>ss ps rs cs. ss \<noteq> [] \<and> ps \<noteq> [] \<and> rs \<noteq> [] \<and>
          dat = DataObject \<lparr>sellers = JSArray ss, products = JSArray ps,
                             purchase_records = JSArray rs, customers = JSArray cs\<rparr>)"
proof (cases dat)
  case (DataObject d)
  obtain a b c e where d: "d = \<lparr>sellers = a, products = b, purchase_records = c, customers = e\<rparr>"
    by (cases d) simp
  show ?thesis
    unfolding DataObject d data_invalid_def
    by (cases a; cases b; cases c; cases e) simp_all
qed (simp_all add: data_invalid_def)

lemma analyzeSalesData_valid:
  assumes "ss \<noteq> []" "ps \<noteq> []" "rs \<noteq> []"
  shows "analyzeSalesData
           (DataObject \<lparr>sellers = JSArray ss, products = JSArray ps,
                         purchase_records = JSArray rs, customers = JSArray cs\<rparr>)
           (OptionsObject \<lparr>calculateRevenue = Function calcRevenue,
                            calculateBonus = Function calcBonus\<rparr>)
         = Inr (pipeline calcRevenue calcBonus ss ps rs)"
  using assms by (simp add: analyzeSalesData_def data_invalid_def)

lemma options_functions:
  "calculateRevenue opt = Function f \<Longrightarrow> calculateBonus opt = Function g \<Longrightarrow>
   opt = \<lparr>calculateRevenue = Function f, calculateBonus = Function g\<rparr>"
  by (cases opt) simp

lemma analyzeSalesData_Inr_iff:
  "(\<exists>rep. analyzeSalesData dat opts = Inr rep) \<longleftrightarrow>
     (\<exists>ss ps rs cs calcRevenue calcBonus.
        ss \<noteq> [] \<and> ps \<noteq> [] \<and> rs \<noteq> [] \<and>
        dat = DataObject \<lparr>sellers = JSArray ss, products = JSArray ps,
                           purchase_records = JSArray rs, customers = JSArray cs\<rparr> \<and>
        opts = OptionsObject \<lparr>calculateRevenue = Function calcRevenue,
                               calculateBonus = Function calcBonus\<rparr>)"
  (is "?lhs \<longleftrightarrow> ?rhs")
proof
  assume ?rhs
  then show ?lhs using analyzeSalesData_valid by blast
next
  assume ?lhs
  then obtain rep where rep: "analyzeSalesData dat opts = Inr rep" ..
  have valid: "\<not> data_invalid dat"
    using rep by (auto simp: analyzeSalesData_def)
  then obtain ss ps rs cs where d: "ss \<noteq> []" "ps \<noteq> []" "rs \<noteq> []"
      "dat = DataObject \<lparr>sellers = JSArray ss, products = JSArray ps,
                          purchase_records = JSArray rs, customers = JSArray cs\<rparr>"
    unfolding data_invalid_iff by blast
  obtain opt where o: "opts = OptionsObject opt"
    using rep valid by (cases opts) (auto simp: analyzeSalesData_def)
  obtain f where f: "calculateRevenue opt = Function f"
    using rep valid unfolding o analyzeSalesData_def
    by (cases "calculateRevenue opt"; cases "calculateBonus opt") simp_all
  obtain g where g: "calculateBonus opt = Function g"
    using rep valid unfolding o analyzeSalesData_def
    by (cases "calculateRevenue opt"; cases "calculateBonus opt") simp_all
  have "\<exists>f g. opt = \<lparr>calculateRevenue = Function f, calculateBonus = Function g\<rparr>"
    using options_functions [OF f g] by blast
  with d o show ?rhs by blast
qed

subsection \<open>The two indexes\<close>

lemma build_seller_index_snoc:
  "build_seller_index (stats @ [x]) = (build_seller_index stats)(st_id x \<mapsto> length stats)"
  by (simp add: build_seller_index_def enumerate_append_eq)

lemma build_seller_index_Some_iff:
  "build_seller_index stats k = Some j \<longleftrightarrow>
     j < length stats \<and> st_id (stats ! j) = k \<and> k \<notin> st_id ` set (drop (Suc j) stats)"
proof (induction stats arbitrary: j rule: rev_induct)
  case Nil
  then show ?case by (simp add: build_seller_index_def)
next
  case (snoc x stats)
  show ?case
  proof (cases "st_id x = k")
    case True
    then show ?thesis
      by (auto simp: build_seller_index_snoc nth_append)
  next
    case False
    then show ?thesis
      using snoc.IH [of j] by (auto simp: build_seller_index_snoc nth_append)
  qed
qed

lemma build_seller_index_bound:
  "build_seller_index stats k = Some j \<Longrightarrow> j < length stats"
  by (simp add: build_seller_index_Some_iff)


lemma build_product_index_snoc:
  "build_product_index (ps @ [p]) = (build_product_index ps)(p_sku p \<mapsto> p)"
  by (simp add: build_product_index_def)

lemma build_product_index_eq: "build_product_index ps sku = find_product ps sku"
proof (induction ps rule: rev_induct)
  case Nil
  then show ?case by (simp add: build_product_index_def find_product_def)
next
  case (snoc p ps)
  then show ?case by (simp add: build_product_index_snoc find_product_def)
qed


subsection \<open>The inner loop\<close>

lemma process_item_fields [simp]:
  "st_id (process_item cr pidx it s) = st_id s"
  "st_name (process_item cr pidx it s) = st_name s"
  "st_sales_count (process_item cr pidx it s) = st_sales_count s"
  "st_revenue (process_item cr pidx it s) = st_revenue s + cr it (pidx (i_sku it))"
  "st_products_sold (process_item cr pidx it s)
     = bump_sold (i_sku it) (i_quantity it) (st_products_sold s)"
  by (simp_all add: process_item_def Let_def)

lemma process_item_profit [simp]:
  "st_profit (process_item cr pidx it s)
     = st_profit s + (cr it (pidx (i_sku it))
         - (case pidx (i_sku it) of None \<Rightarrow> 0 | Some p \<Rightarrow> p_purchase_price p * i_quantity it))"
  by (simp add: process_item_def Let_def)

lemma process_item_count_update:
  "process_item cr pidx it (s\<lparr>st_sales_count := c\<rparr>)
     = (process_item cr pidx it s)\<lparr>st_sales_count := c\<rparr>"
  by (simp add: process_item_def Let_def)

lemma fold_process_item_count_update:
  "fold (process_item cr pidx) its (s\<lparr>st_sales_count := c\<rparr>)
     = (fold (process_item cr pidx) its s)\<lparr>st_sales_count := c\<rparr>"
  by (induction its arbitrary: s) (simp_all add: process_item_count_update)

lemma fold_process_item_fields [simp]:
  "st_id (fold (process_item cr pidx) its s) = st_id s"
  "st_name (fold (process_item cr pidx) its s) = st_name s"
  "st_sales_count (fold (process_item cr pidx) its s) = st_sales_count s"
  by (induction its arbitrary: s) simp_all

lemma fold_process_item_revenue:
  "st_revenue (fold (process_item cr pidx) its s)
     = st_revenue s + (\<Sum>it\<leftarrow>its. cr it (pidx (i_sku it)))"
  by (induction its arbitrary: s) simp_all

lemma fold_process_item_profit:
  "st_profit (fold (process_item cr pidx) its s)
     = st_profit s + (\<Sum>it\<leftarrow>its. cr it (pidx (i_sku it))
         - (case pidx (i_sku it) of None \<Rightarrow> 0 | Some p \<Rightarrow> p_purchase_price p * i_quantity it))"
  by (induction its arbitrary: s) simp_all

lemma fold_process_item_sold:
  "st_products_sold (fold (process_item cr pidx) its s)
     = fold (\<lambda>it. bump_sold (i_sku it) (i_quantity it)) its (st_products_sold s)"
  by (induction its arbitrary: s) simp_all

subsection \<open>The outer loop\<close>

lemma length_process_record [simp]:
  "length (process_record cr sidx pidx r st) = length st"
  by (simp add: process_record_def Let_def split: option.split)

lemma length_fold_process_record [simp]:
  "length (fold (process_record cr sidx pidx) rs st) = length st"
  by (induction rs arbitrary: st) simp_all

lemma length_accumulate [simp]: "length (accumulate cr ss ps rs) = length ss"
  by (simp add: accumulate_def Let_def)


lemma nth_process_record:
  assumes "j < length st"
  shows "process_record cr sidx pidx r st ! j
           = (if sidx (r_seller_id r) = Some j
              then fold (process_item cr pidx) (r_items r)
                     ((st ! j)\<lparr>st_sales_count := st_sales_count (st ! j) + 1\<rparr>)
              else st ! j)"
  using assms by (auto simp: process_record_def Let_def split: option.split)

lemma nth_fold_process_record:
  assumes "j < length st"
  shows "fold (process_record cr sidx pidx) rs st ! j
           = fold (process_item cr pidx)
               (concat (map r_items (filter (\<lambda>r. sidx (r_seller_id r) = Some j) rs)))
               ((st ! j)\<lparr>st_sales_count :=
                   st_sales_count (st ! j)
                   + length (filter (\<lambda>r. sidx (r_seller_id r) = Some j) rs)\<rparr>)"
  using assms
proof (induction rs arbitrary: st)
  case Nil
  then show ?case by simp
next
  case (Cons r rs)
  have len: "j < length (process_record cr sidx pidx r st)"
    using Cons.prems by simp
  show ?case
  proof (cases "sidx (r_seller_id r) = Some j")
    case True
    then show ?thesis
      using Cons.IH [OF len] Cons.prems
      by (simp add: nth_process_record fold_process_item_count_update)
  next
    case False
    then show ?thesis
      using Cons.IH [OF len] Cons.prems by (simp add: nth_process_record)
  qed
qed

lemma attributed_eq_filter:
  assumes "j < length ss"
  shows "filter (\<lambda>r. build_seller_index (map init_stat ss) (r_seller_id r) = Some j) rs
           = attributed ss rs j"
proof -
  have id: "st_id (map init_stat ss ! j) = s_id (ss ! j)"
    using assms by (simp add: init_stat_def)
  have img: "st_id ` set (drop (Suc j) (map init_stat ss)) = s_id ` set (drop (Suc j) ss)"
    by (simp add: drop_map image_image init_stat_def)
  have P: "build_seller_index (map init_stat ss) k = Some j \<longleftrightarrow>
             s_id (ss ! j) \<notin> s_id ` set (drop (Suc j) ss) \<and> k = s_id (ss ! j)" for k
    using assms id img by (auto simp: build_seller_index_Some_iff)
  show ?thesis
    by (cases "s_id (ss ! j) \<in> s_id ` set (drop (Suc j) ss)") (simp_all add: attributed_def P)
qed

text \<open>The accumulator of the seller at position \<open>j\<close> after the fold.\<close>

lemma nth_accumulate:
  assumes "j < length ss"
  shows "accumulate cr ss ps rs ! j
           = fold (process_item cr (build_product_index ps)) (attributed_items ss rs j)
               ((init_stat (ss ! j))\<lparr>st_sales_count := length (attributed ss rs j)\<rparr>)"
proof -
  have "j < length (map init_stat ss)" using assms by simp
  from nth_fold_process_record [OF this]
  show ?thesis
    using assms
    by (simp add: accumulate_def Let_def attributed_eq_filter attributed_items_def init_stat_def)
qed

lemma build_product_index_fun: "build_product_index ps = find_product ps"
  by (rule ext) (rule build_product_index_eq)

lemma accumulate_fields:
  assumes "j < length ss"
  shows "st_id (accumulate cr ss ps rs ! j) = s_id (ss ! j)"
    and "st_name (accumulate cr ss ps rs ! j) = s_first_name (ss ! j) @ '' '' @ s_last_name (ss ! j)"
    and "st_sales_count (accumulate cr ss ps rs ! j) = length (attributed ss rs j)"
    and "st_revenue (accumulate cr ss ps rs ! j)
           = (\<Sum>it\<leftarrow>attributed_items ss rs j. item_revenue cr ps it)"
    and "st_profit (accumulate cr ss ps rs ! j)
           = (\<Sum>it\<leftarrow>attributed_items ss rs j. item_revenue cr ps it - item_cost ps it)"
    and "st_products_sold (accumulate cr ss ps rs ! j)
           = fold (\<lambda>it. bump_sold (i_sku it) (i_quantity it)) (attributed_items ss rs j) []"
  unfolding nth_accumulate [OF assms] build_product_index_fun
  by (simp_all add: fold_process_item_count_update fold_process_item_revenue
      fold_process_item_profit fold_process_item_sold init_stat_def item_revenue_def item_cost_def)

subsection \<open>Ranking, bonuses and projection\<close>

lemma length_assign_bonuses [simp]: "length (assign_bonuses cb xs) = length xs"
  by (simp add: assign_bonuses_def Let_def)

lemma nth_assign_bonuses:
  "i < length xs \<Longrightarrow>
   assign_bonuses cb xs ! i
     = \<lparr>rs_stat = xs ! i,
        rs_bonus = cb (int i) (int (length xs)) (xs ! i),
        rs_top_products = top_products_of (st_products_sold (xs ! i))\<rparr>"
  by (simp add: assign_bonuses_def Let_def nth_enumerate_eq)

lemma length_sort_desc [simp]: "length (sort_desc key xs) = length xs"
  by (simp add: sort_desc_def)

lemma set_sort_desc [simp]: "set (sort_desc key xs) = set xs"
  by (simp add: sort_desc_def)

lemma mset_sort_desc [simp]: "mset (sort_desc key xs) = mset xs"
  by (simp add: sort_desc_def)



lemma length_pipeline [simp]: "length (pipeline cr cb ss ps rs) = length ss"
  by (simp add: pipeline_def)

lemma nth_pipeline:
  assumes "i < length ss"
  shows "pipeline cr cb ss ps rs ! i
           = project \<lparr>rs_stat = sort_desc st_profit (accumulate cr ss ps rs) ! i,
                rs_bonus = cb (int i) (int (length ss))
                              (sort_desc st_profit (accumulate cr ss ps rs) ! i),
                rs_top_products = top_products_of
                   (st_products_sold (sort_desc st_profit (accumulate cr ss ps rs) ! i))\<rparr>"
  using assms by (simp add: pipeline_def nth_assign_bonuses)

subsection \<open>The counters of sold quantities\<close>









subsection \<open>The rank order\<close>

lemma map_insort_key:
  "map g (insort_key (\<lambda>x. f (g x)) x xs) = insort_key f (g x) (map g xs)"
  by (induction xs) simp_all

lemma map_sort_key: "map g (sort_key (\<lambda>x. f (g x)) xs) = sort_key f (map g xs)"
  by (induction xs) (simp_all add: map_insort_key)

lemma map_sort_desc: "map g (sort_desc (\<lambda>x. key (g x)) xs) = sort_desc key (map g xs)"
  unfolding sort_desc_def by (rule map_sort_key)


lemma length_rank_order [simp]: "length (rank_order cr ss ps rs) = length ss"
  by (simp add: rank_order_def)

lemma mset_rank_order: "mset (rank_order cr ss ps rs) = mset [0..<length ss]"
proof -
  have "mset (rank_order cr ss ps rs) = mset (map fst (enumerate 0 (accumulate cr ss ps rs)))"
    unfolding rank_order_def by (simp only: mset_map mset_sort_desc)
  then show ?thesis by simp
qed

lemma rank_order_less:
  assumes "i < length ss"
  shows "rank_order cr ss ps rs ! i < length ss"
proof -
  have "rank_order cr ss ps rs ! i \<in> set (rank_order cr ss ps rs)"
    using assms by simp
  then have "rank_order cr ss ps rs ! i \<in> set [0..<length ss]"
    using mset_rank_order [of cr ss ps rs] by (metis set_mset_mset)
  then show ?thesis by simp
qed


lemma nth_ranked:
  assumes "i < length ss"
  shows "sort_desc st_profit (accumulate cr ss ps rs) ! i
           = accumulate cr ss ps rs ! (rank_order cr ss ps rs ! i)"
proof -
  let ?acc = "accumulate cr ss ps rs"
  let ?sp = "sort_desc (\<lambda>p. st_profit (snd p)) (enumerate 0 ?acc)"
  have len: "i < length ?sp" using assms by simp
  then have "?sp ! i \<in> set (enumerate 0 ?acc)"
    by (metis nth_mem set_sort_desc)
  then have pair: "snd (?sp ! i) = ?acc ! fst (?sp ! i)"
    by (simp add: in_set_enumerate_eq)
  have "map snd ?sp = sort_desc st_profit (map snd (enumerate 0 ?acc))"
    by (rule map_sort_desc)
  then have "sort_desc st_profit ?acc = map snd ?sp" by simp
  then have "sort_desc st_profit ?acc ! i = snd (?sp ! i)"
    using len by simp
  also have "\<dots> = ?acc ! fst (?sp ! i)" by (rule pair)
  also have "fst (?sp ! i) = rank_order cr ss ps rs ! i"
    using len by (simp add: rank_order_def)
  finally show ?thesis .
qed


lemma nth_pipeline_rank:
  assumes "i < length ss"
  shows "pipeline cr cb ss ps rs ! i
           = project
               \<lparr>rs_stat = accumulate cr ss ps rs ! (rank_order cr ss ps rs ! i),
                rs_bonus = cb (int i) (int (length ss))
                             (accumulate cr ss ps rs ! (rank_order cr ss ps rs ! i)),
                rs_top_products = top_products_of
                  (st_products_sold (accumulate cr ss ps rs ! (rank_order cr ss ps rs ! i)))\<rparr>"
  using assms by (simp add: nth_pipeline nth_ranked)

lemma analyzeSalesData_Inr:
  assumes "analyzeSalesData
             (DataObject \<lparr>sellers = JSArray ss, products = JSArray ps,
                           purchase_records = JSArray rs, customers = cs\<rparr>)
             (OptionsObject \<lparr>calculateRevenue = Function cr, calculateBonus = Function cb\<rparr>)
           = Inr rep"
  shows "rep = pipeline cr cb ss ps rs" "ss \<noteq> []" "ps \<noteq> []" "rs \<noteq> []"
  using assms by (auto simp: analyzeSalesData_def data_invalid_def split: if_splits)

subsection \<open>Rounding to two decimals\<close>


lemma toFixed2_zero [simp]: "toFixed2 0 = 0"
  by (simp add: toFixed2_def)





subsection \<open>Sellers without receipts\<close>

lemma top_products_of_Nil [simp]: "top_products_of [] = []"
  by (simp add: top_products_of_def entries_def sort_desc_def)

lemma accumulate_untouched:
  assumes "j < length ss" "attributed ss rs j = []"
  shows "accumulate cr ss ps rs ! j = init_stat (ss ! j)"
  using assms by (simp add: nth_accumulate attributed_items_def init_stat_def)

lemma attributed_unreferenced:
  "s_id (ss ! j) \<notin> r_seller_id ` set rs \<Longrightarrow> attributed ss rs j = []"
  by (force simp: attributed_def filter_empty_conv)


lemma pipeline_untouched:
  assumes "i < length ss" "attributed ss rs (rank_order cr ss ps rs ! i) = []"
  shows "pipeline cr cb ss ps rs ! i
           = \<lparr>seller_id = s_id (ss ! (rank_order cr ss ps rs ! i)),
              name = s_first_name (ss ! (rank_order cr ss ps rs ! i)) @ '' ''
                       @ s_last_name (ss ! (rank_order cr ss ps rs ! i)),
              revenue = 0, profit = 0, sales_count = 0, top_products = [],
              bonus = toFixed2 (cb (int i) (int (length ss))
                                  (init_stat (ss ! (rank_order cr ss ps rs ! i))))\<rparr>"
proof -
  have "rank_order cr ss ps rs ! i < length ss"
    using assms(1) by (rule rank_order_less)
  from accumulate_untouched [OF this assms(2)] show ?thesis
    using assms(1) by (simp add: nth_pipeline_rank project_def init_stat_def)
qed

subsection \<open>The top products\<close>











lemma set_entries [simp]: "set (entries obj) = set obj"
  by (auto simp: entries_def)











section \<open>The claims\<close>

text \<open>
  C1, as the code has it. The call returns a report exactly when the first argument is an
  object whose \<^verbatim>\<open>sellers\<close>, \<^verbatim>\<open>products\<close> and \<^verbatim>\<open>purchase_records\<close> are non-empty arrays and
  whose \<^verbatim>\<open>customers\<close> is an array (it may be empty), and the second argument is an object
  whose \<^verbatim>\<open>calculateRevenue\<close> and \<^verbatim>\<open>calculateBonus\<close> are functions; the report is then the
  result of the pipeline. In every other case, and only then, the call throws one of the
  four errors, and the error for a bad first argument takes precedence.
\<close>

theorem validation_exact:
  "((\<exists>rep. analyzeSalesData dat opts = Inr rep) \<longleftrightarrow>
      (\<exists>ss ps rs cs calcRevenue calcBonus.
         ss \<noteq> [] \<and> ps \<noteq> [] \<and> rs \<noteq> [] \<and>
         dat = DataObject \<lparr>sellers = JSArray ss, products = JSArray ps,
                            purchase_records = JSArray rs, customers = JSArray cs\<rparr> \<and>
         opts = OptionsObject \<lparr>calculateRevenue = Function calcRevenue,
                                calculateBonus = Function calcBonus\<rparr>))
   \<and> (ss \<noteq> [] \<and> ps \<noteq> [] \<and> rs \<noteq> [] \<longrightarrow>
         analyzeSalesData
           (DataObject \<lparr>sellers = JSArray ss, products = JSArray ps,
                         purchase_records = JSArray rs, customers = JSArray cs\<rparr>)
           (OptionsObject \<lparr>calculateRevenue = Function calcRevenue,
                            calculateBonus = Function calcBonus\<rparr>)
         = Inr (pipeline calcRevenue calcBonus ss ps rs))
   \<and> ((\<exists>e. analyzeSalesData dat opts = Inl e) \<longleftrightarrow> \<not> (\<exists>rep. analyzeSalesData dat opts = Inr rep))
   \<and> (data_invalid dat \<longrightarrow> analyzeSalesData dat opts = Inl InvalidInputData)"
proof (intro conjI impI)
  show "(\<exists>e. analyzeSalesData dat opts = Inl e) \<longleftrightarrow> \<not> (\<exists>rep. analyzeSalesData dat opts = Inr rep)"
    by (cases "analyzeSalesData dat opts") simp_all
next
  assume "data_invalid dat"
  then show "analyzeSalesData dat opts = Inl InvalidInputData"
    by (simp add: analyzeSalesData_def)
next
  assume "ss \<noteq> [] \<and> ps \<noteq> [] \<and> rs \<noteq> []"
  then show "analyzeSalesData
           (DataObject \<lparr>sellers = JSArray ss, products = JSArray ps,
                         purchase_records = JSArray rs, customers = JSArray cs\<rparr>)
           (OptionsObject \<lparr>calculateRevenue = Function calcRevenue,
                            calculateBonus = Function calcBonus\<rparr>)
         = Inr (pipeline calcRevenue calcBonus ss ps rs)"
    by (simp add: analyzeSalesData_valid)
qed (rule analyzeSalesData_Inr_iff)

theorem validation_exact_witness:
  "(\<exists>rep. analyzeSalesData ex_data ex_options = Inr rep)
   \<and> analyzeSalesData ex_data ex_options
       = Inr (pipeline calculateSimpleRevenue calculateBonusByProfit
                [ex_seller1, ex_seller2] [ex_product1, ex_product2] [ex_record1, ex_record2])"
  using validation_exact [of ex_data ex_options "[ex_seller1, ex_seller2]"
      "[ex_product1, ex_product2]" "[ex_record1, ex_record2]" "[]"
      calculateSimpleRevenue calculateBonusByProfit]
  by (simp add: ex_data_def ex_options_def)

text \<open>
  C1 as stated lets \<^verbatim>\<open>customers\<close> be absent. The code throws on such a bundle: line 48
  requires \<^verbatim>\<open>Array.isArray(data.customers)\<close>.
\<close>

theorem customers_required_counterexample:
  "analyzeSalesData ex_data_no_customers ex_options = Inl InvalidInputData"
  by (simp add: analyzeSalesData_def data_invalid_def ex_data_no_customers_def)

text \<open>
  C2, as the code has it. Under the default bonus policy the seller at rank 0 receives
  0.15 of its profit, the sellers at ranks 1 and 2 receive 0.10 of their profit (also when
  that rank is the last one), the last seller receives 0 when its rank is 3 or more, every
  other seller receives 0.05 of its profit, and a single seller receives 0.15 of its
  profit.
\<close>

theorem default_bonus_by_rank:
  assumes "i < length ranked"
  shows "(i = 0 \<longrightarrow>
            rs_bonus (assign_bonuses calculateBonusByProfit ranked ! i)
              = st_profit (ranked ! i) * (15 / 100))
       \<and> (i = 1 \<or> i = 2 \<longrightarrow>
            rs_bonus (assign_bonuses calculateBonusByProfit ranked ! i)
              = st_profit (ranked ! i) * (10 / 100))
       \<and> (3 \<le> i \<and> i = length ranked - 1 \<longrightarrow>
            rs_bonus (assign_bonuses calculateBonusByProfit ranked ! i) = 0)
       \<and> (3 \<le> i \<and> i \<noteq> length ranked - 1 \<longrightarrow>
            rs_bonus (assign_bonuses calculateBonusByProfit ranked ! i)
              = st_profit (ranked ! i) * (5 / 100))
       \<and> (length ranked = 1 \<longrightarrow>
            rs_bonus (assign_bonuses calculateBonusByProfit ranked ! i)
              = st_profit (ranked ! i) * (15 / 100))"
proof -
  have "rs_bonus (assign_bonuses calculateBonusByProfit ranked ! i)
          = calculateBonusByProfit (int i) (int (length ranked)) (ranked ! i)"
    using assms by (simp add: nth_assign_bonuses)
  moreover have "int i = int (length ranked) - 1 \<longleftrightarrow> i = length ranked - 1"
    using assms by auto
  ultimately show ?thesis
    using assms by (auto simp: calculateBonusByProfit_def Let_def)
qed

theorem default_bonus_by_rank_witness:
  "rs_bonus (assign_bonuses calculateBonusByProfit ex_ranked ! 3) = 0
   \<and> rs_bonus (assign_bonuses calculateBonusByProfit ex_ranked ! 2) = 20"
proof -
  have "(3::nat) < length ex_ranked" "(2::nat) < length ex_ranked"
    by (simp_all add: ex_ranked_def)
  from default_bonus_by_rank [OF this(1)] default_bonus_by_rank [OF this(2)]
  show ?thesis
    by (simp add: ex_ranked_def ex_stat_def)
qed

text \<open>
  C2 as stated gives the last seller of every multi-seller set a bonus of 0. With two
  sellers the last one is at rank 1 and the code gives it 0.10 of its profit: here 5, for
  a profit of 50.
\<close>

theorem last_of_two_counterexample:
  "analyzeSalesData ex_data ex_options
   = Inr [\<lparr>seller_id = ''seller_1'', name = ''Ann Lee'', revenue = 180, profit = 100,
           sales_count = 1, top_products = [\<lparr>tp_sku = ''SKU_001'', tp_quantity = 2\<rparr>],
           bonus = 15\<rparr>,
          \<lparr>seller_id = ''seller_2'', name = ''Bob Ray'', revenue = 100, profit = 50,
           sales_count = 1, top_products = [\<lparr>tp_sku = ''SKU_002'', tp_quantity = 5\<rparr>],
           bonus = 5\<rparr>]"
  by code_simp

text \<open>
  C3. A call that returns a report returns one entry per seller: the report has the
  length of \<^verbatim>\<open>sellers\<close>, the rank order is a permutation of the input positions, and the
  entry at rank \<open>i\<close> carries the identifier and the name of the seller at position
  \<open>rank_order \<dots> ! i\<close>. When no receipt is attributed to that seller (in particular when
  no receipt names its identifier), the entry has revenue 0, profit 0, no sales, no top
  products, and the bonus that the bonus calculator gives for the zero-initialised
  accumulator.
\<close>

theorem one_entry_per_seller:
  assumes "analyzeSalesData
             (DataObject \<lparr>sellers = JSArray ss, products = JSArray ps,
                           purchase_records = JSArray rs, customers = JSArray cs\<rparr>)
             (OptionsObject \<lparr>calculateRevenue = Function cr, calculateBonus = Function cb\<rparr>)
           = Inr rep"
    and "i < length ss"
  shows "length rep = length ss
       \<and> mset (rank_order cr ss ps rs) = mset [0..<length ss]
       \<and> seller_id (rep ! i) = s_id (ss ! (rank_order cr ss ps rs ! i))
       \<and> name (rep ! i) = s_first_name (ss ! (rank_order cr ss ps rs ! i)) @ '' ''
                             @ s_last_name (ss ! (rank_order cr ss ps rs ! i))
       \<and> (s_id (ss ! (rank_order cr ss ps rs ! i)) \<notin> r_seller_id ` set rs \<longrightarrow>
            attributed ss rs (rank_order cr ss ps rs ! i) = [])
       \<and> (attributed ss rs (rank_order cr ss ps rs ! i) = [] \<longrightarrow>
            rep ! i
              = \<lparr>seller_id = s_id (ss ! (rank_order cr ss ps rs ! i)),
                 name = s_first_name (ss ! (rank_order cr ss ps rs ! i)) @ '' ''
                          @ s_last_name (ss ! (rank_order cr ss ps rs ! i)),
                 revenue = 0, profit = 0, sales_count = 0, top_products = [],
                 bonus = toFixed2 (cb (int i) (int (length ss))
                                     (init_stat (ss ! (rank_order cr ss ps rs ! i))))\<rparr>)"
proof -
  have rep: "rep = pipeline cr cb ss ps rs"
    using assms(1) by (rule analyzeSalesData_Inr)
  have less: "rank_order cr ss ps rs ! i < length ss"
    using assms(2) by (rule rank_order_less)
  have "seller_id (rep ! i) = s_id (ss ! (rank_order cr ss ps rs ! i))"
    "name (rep ! i) = s_first_name (ss ! (rank_order cr ss ps rs ! i)) @ '' ''
                             @ s_last_name (ss ! (rank_order cr ss ps rs ! i))"
    unfolding rep nth_pipeline_rank [OF assms(2)]
    using less by (simp_all add: project_def accumulate_fields)
  moreover have "length rep = length ss"
    by (simp add: rep)
  ultimately show ?thesis
    using pipeline_untouched [OF assms(2), of rs cr ps cb] attributed_unreferenced
    by (simp add: rep mset_rank_order)
qed

theorem one_entry_per_seller_witness:
  "pipeline calculateSimpleRevenue calculateBonusByProfit [ex_seller1, ex_seller2]
      [ex_product1, ex_product2] [ex_record1] ! 1
   = \<lparr>seller_id = ''seller_2'', name = ''Bob Ray'', revenue = 0, profit = 0, sales_count = 0,
      top_products = [], bonus = 0\<rparr>"
proof -
  let ?ss = "[ex_seller1, ex_seller2]" and ?ps = "[ex_product1, ex_product2]"
    and ?rs = "[ex_record1]"
  have valid: "analyzeSalesData
      (DataObject \<lparr>sellers = JSArray ?ss, products = JSArray ?ps,
                    purchase_records = JSArray ?rs, customers = JSArray []\<rparr>)
      (OptionsObject \<lparr>calculateRevenue = Function calculateSimpleRevenue,
                       calculateBonus = Function calculateBonusByProfit\<rparr>)
    = Inr (pipeline calculateSimpleRevenue calculateBonusByProfit ?ss ?ps ?rs)"
    by (simp add: analyzeSalesData_valid)
  have i: "1 < length ?ss" by simp
  have order: "rank_order calculateSimpleRevenue ?ss ?ps ?rs ! 1 = 1"
    by code_simp
  have none: "attributed ?ss ?rs 1 = []"
    by code_simp
  have bonus: "toFixed2 (calculateBonusByProfit (int 1) (int (length ?ss)) (init_stat (?ss ! 1)))
                 = 0"
    by code_simp
  from one_entry_per_seller [OF valid i] order none bonus show ?thesis
    by (simp add: ex_seller2_def)
qed











text \<open>
  C8. One seller, one receipt with one line (sale price 100, quantity 2, discount 10) and
  the matching product card (purchase price 40), under the two default policies: the
  report has one entry, with revenue 180, profit 100, one sale and bonus 15.
\<close>

theorem single_sale_example:
  "analyzeSalesData
     (DataObject
        \<lparr>sellers = JSArray [\<lparr>s_id = sid, s_first_name = fname, s_last_name = lname\<rparr>],
         products = JSArray [\<lparr>p_sku = sku, p_purchase_price = 40\<rparr>],
         purchase_records = JSArray
           [\<lparr>r_seller_id = sid,
             r_items = [\<lparr>i_sku = sku, i_quantity = 2, i_sale_price = 100, i_discount = 10\<rparr>]\<rparr>],
         customers = JSArray cs\<rparr>)
     (OptionsObject \<lparr>calculateRevenue = Function calculateSimpleRevenue,
                      calculateBonus = Function calculateBonusByProfit\<rparr>)
   = Inr [\<lparr>seller_id = sid, name = fname @ '' '' @ lname, revenue = 180, profit = 100,
           sales_count = 1, top_products = [\<lparr>tp_sku = sku, tp_quantity = 2\<rparr>],
           bonus = 15\<rparr>]"
proof -
  have round: "toFixed2 180 = 180" "toFixed2 100 = 100" "toFixed2 15 = 15"
    by (simp_all add: toFixed2_def floor_eq_iff)
  show ?thesis
    by (simp add: analyzeSalesData_def data_invalid_def pipeline_def accumulate_def
        build_seller_index_def build_product_index_def process_record_def process_item_def
        bump_sold_def obj_get_def init_stat_def sort_desc_def assign_bonuses_def project_def
        top_products_of_def entries_def round calculateSimpleRevenue_def
        calculateBonusByProfit_def)
qed

theorem single_sale_example_witness:
  "analyzeSalesData
     (DataObject \<lparr>sellers = JSArray [ex_seller1], products = JSArray [ex_product1],
                   purchase_records = JSArray [ex_record1], customers = JSArray []\<rparr>)
     ex_options
   = Inr [\<lparr>seller_id = ''seller_1'', name = ''Ann Lee'', revenue = 180, profit = 100,
           sales_count = 1, top_products = [\<lparr>tp_sku = ''SKU_001'', tp_quantity = 2\<rparr>],
           bonus = 15\<rparr>]"
  using single_sale_example [of "''seller_1''" "''Ann''" "''Lee''" "''SKU_001''" "[]"]
  by (simp add: ex_seller1_def ex_product1_def ex_record1_def ex_item1_def ex_options_def)

text \<open>
  C9. The bonus calculator is called with the accumulator as the fold left it: its
  revenue and profit are the exact sums over the seller's line items. The bonus of the
  entry is the rounding of what the calculator returns, and revenue and profit are
  rounded in the same projection step, once.
\<close>

theorem bonus_from_unrounded_profit:
  assumes "analyzeSalesData
             (DataObject \<lparr>sellers = JSArray ss, products = JSArray ps,
                           purchase_records = JSArray rs, customers = JSArray cs\<rparr>)
             (OptionsObject \<lparr>calculateRevenue = Function cr, calculateBonus = Function cb\<rparr>)
           = Inr rep"
    and "i < length ss"
  shows "bonus (rep ! i)
           = toFixed2 (cb (int i) (int (length ss))
                         (accumulate cr ss ps rs ! (rank_order cr ss ps rs ! i)))
       \<and> st_profit (accumulate cr ss ps rs ! (rank_order cr ss ps rs ! i))
           = (\<Sum>it\<leftarrow>attributed_items ss rs (rank_order cr ss ps rs ! i).
                item_revenue cr ps it - item_cost ps it)
       \<and> st_revenue (accumulate cr ss ps rs ! (rank_order cr ss ps rs ! i))
           = (\<Sum>it\<leftarrow>attributed_items ss rs (rank_order cr ss ps rs ! i). item_revenue cr ps it)
       \<and> profit (rep ! i)
           = toFixed2 (st_profit (accumulate cr ss ps rs ! (rank_order cr ss ps rs ! i)))
       \<and> revenue (rep ! i)
           = toFixed2 (st_revenue (accumulate cr ss ps rs ! (rank_order cr ss ps rs ! i)))
       \<and> seller_id (rep ! i) = st_id (accumulate cr ss ps rs ! (rank_order cr ss ps rs ! i))"
proof -
  have rep: "rep = pipeline cr cb ss ps rs"
    using assms(1) by (rule analyzeSalesData_Inr)
  have less: "rank_order cr ss ps rs ! i < length ss"
    using assms(2) by (rule rank_order_less)
  show ?thesis
    unfolding rep nth_pipeline_rank [OF assms(2)]
    by (simp add: project_def accumulate_fields [OF less])
qed

theorem bonus_from_unrounded_profit_witness:
  "bonus (pipeline calculateSimpleRevenue calculateBonusByProfit [ex_seller1]
            [ex_product1, ex_product2] [ex_record_small] ! 0) = 1 / 100
   \<and> profit (pipeline calculateSimpleRevenue calculateBonusByProfit [ex_seller1]
            [ex_product1, ex_product2] [ex_record_small] ! 0) = 3 / 100
   \<and> toFixed2 (calculateBonusByProfit 0 1 (ex_stat ''seller_1'' (3 / 100))) = 0"
proof -
  let ?ss = "[ex_seller1]" and ?ps = "[ex_product1, ex_product2]"
    and ?rs = "[ex_record_small]"
  have valid: "analyzeSalesData
      (DataObject \<lparr>sellers = JSArray ?ss, products = JSArray ?ps,
                    purchase_records = JSArray ?rs, customers = JSArray []\<rparr>)
      (OptionsObject \<lparr>calculateRevenue = Function calculateSimpleRevenue,
                       calculateBonus = Function calculateBonusByProfit\<rparr>)
    = Inr (pipeline calculateSimpleRevenue calculateBonusByProfit ?ss ?ps ?rs)"
    by (simp add: analyzeSalesData_valid)
  have i: "0 < length ?ss" by simp
  have raw: "st_profit (accumulate calculateSimpleRevenue ?ss ?ps ?rs
               ! (rank_order calculateSimpleRevenue ?ss ?ps ?rs ! 0)) = 17 / 500"
    by code_simp
  have b: "toFixed2 (calculateBonusByProfit (int 0) (int (length ?ss))
             (accumulate calculateSimpleRevenue ?ss ?ps ?rs
               ! (rank_order calculateSimpleRevenue ?ss ?ps ?rs ! 0))) = 1 / 100"
    by code_simp
  have p: "toFixed2 (17 / 500) = 3 / 100"
    by code_simp
  have other: "toFixed2 (calculateBonusByProfit 0 1 (ex_stat ''seller_1'' (3 / 100))) = 0"
    by code_simp
  from bonus_from_unrounded_profit [OF valid i] raw b p other show ?thesis
    by simp
qed



end
